theory Spec2Isabelle
  imports Main
begin

section \<open>Data model\<close>

text \<open>
  The routes of \<^verbatim>\<open>impl/routes/assistants.py\<close> are embedded as functions that take the
  store and return their outcome together with the store they leave behind. A raised
  exception is the \<open>Inl\<close> branch of a sum. The two injected dependencies
  \<^verbatim>\<open>verify_openai_token\<close> and \<^verbatim>\<open>verify_db_client\<close> run before a route's body
  and are not part of it; the client they hand over is the store argument.
\<close>

datatype error =
    HTTPException int string
  | ValidationError

text \<open>
  \<^verbatim>\<open>AssistantObjectToolsInner(type=..., function=...)\<close>: a type tag and, for the function
  variant, the function definition it carries (kept as text).
\<close>

type_synonym function_object = string

record tool =
  tool_type :: string
  tool_function :: "function_object option"

text \<open>
  A tool is stored as one JSON text per entry. The text itself is kept abstract: an entry
  is either the serialisation of a tool, which \<^verbatim>\<open>parse_raw\<close> decodes back to that tool, or
  text that \<^verbatim>\<open>parse_raw\<close> rejects.
\<close>

datatype tool_json =
    Json tool
  | Malformed string

text \<open>
  A value of the timestamp column, held as the epoch-millisecond count that
  \<^verbatim>\<open>int(x.timestamp() * 1000)\<close> reads from it.
\<close>

type_synonym datetime = int

text \<open>A row of the table \<^verbatim>\<open>assistants\<close>, as \<^verbatim>\<open>selectAllFromTable\<close> yields it.\<close>

record stored_row =
  row_id :: string
  row_object :: "string option"
  row_created_at :: datetime
  row_name :: "string option"
  row_description :: "string option"
  row_model :: "string option"
  row_instructions :: "string option"
  row_tools :: "tool_json list option"
  row_file_ids :: "string list option"
  row_metadata :: "(string \<rightharpoonup> string) option"

record assistant_object =
  ao_id :: string
  ao_object :: string
  ao_created_at :: int
  ao_name :: "string option"
  ao_description :: "string option"
  ao_model :: "string option"
  ao_instructions :: "string option"
  ao_tools :: "tool list"
  ao_file_ids :: "string list"
  ao_metadata :: "string \<rightharpoonup> string"

record create_assistant_request =
  car_name :: "string option"
  car_description :: "string option"
  car_model :: "string option"
  car_instructions :: "string option"
  car_tools :: "tool list option"
  car_file_ids :: "string list option"
  car_metadata :: "(string \<rightharpoonup> string) option"

record modify_assistant_request =
  mar_name :: "string option"
  mar_description :: "string option"
  mar_model :: "string option"
  mar_instructions :: "string option"
  mar_tools :: "tool list option"
  mar_file_ids :: "string list option"
  mar_metadata :: "(string \<rightharpoonup> string) option"

record list_assistants_response =
  lar_data :: "assistant_object list"
  lar_object :: string
  lar_first_id :: string
  lar_last_id :: string
  lar_has_more :: bool

record delete_assistant_response =
  dar_id :: string
  dar_deleted :: bool
  dar_object :: string

section \<open>Decoding a stored row\<close>

text \<open>\<^verbatim>\<open>AssistantObjectToolsInner.parse_raw(json_string)\<close>; it raises on text that is no tool.\<close>

fun parse_raw :: "tool_json \<Rightarrow> error + tool" where
  "parse_raw (Json t) = Inr t"
| "parse_raw (Malformed s) = Inl ValidationError"

text \<open>
  The inner loop of \<^verbatim>\<open>list_assistants\<close>:
  \<^verbatim>\<open>for json_string in toolsJson: tools.append(AssistantObjectToolsInner.parse_raw(json_string))\<close>.
\<close>

fun parse_tools :: "tool_json list \<Rightarrow> tool list \<Rightarrow> error + tool list" where
  "parse_tools [] tools = Inr tools"
| "parse_tools (json_string # rest) tools =
     (case parse_raw json_string of
        Inl e \<Rightarrow> Inl e
      | Inr t \<Rightarrow> parse_tools rest (tools @ [t]))"

text \<open>
  The body of the outer loop of \<^verbatim>\<open>list_assistants\<close> (lines 62 to 93): one stored row
  becomes one \<^verbatim>\<open>AssistantObject\<close>. A missing model is logged and nothing else.
\<close>

definition to_assistant_object :: "stored_row \<Rightarrow> error + assistant_object" where
  "to_assistant_object assistant =
     (let created_at = row_created_at assistant;
          metadata = (case row_metadata assistant of None \<Rightarrow> Map.empty | Some m \<Rightarrow> m);
          file_ids = (case row_file_ids assistant of None \<Rightarrow> [] | Some f \<Rightarrow> f)
      in case (case row_tools assistant of
                 None \<Rightarrow> Inr []
               | Some toolsJson \<Rightarrow> parse_tools toolsJson []) of
           Inl e \<Rightarrow> Inl e
         | Inr tools \<Rightarrow>
             Inr \<lparr> ao_id = row_id assistant,
                   ao_object = ''assistant'',
                   ao_created_at = created_at,
                   ao_name = row_name assistant,
                   ao_description = row_description assistant,
                   ao_model = row_model assistant,
                   ao_instructions = row_instructions assistant,
                   ao_tools = tools,
                   ao_file_ids = file_ids,
                   ao_metadata = metadata \<rparr>)"

section \<open>The store\<close>

text \<open>
  Modelled from the spec: the class \<^verbatim>\<open>CassandraClient\<close> of \<^verbatim>\<open>impl/astra_vector.py\<close> is
  not among the sources. The spec gives its contract: a table keyed by id with columns
  matching the attributes of an assistant, supporting upsert by id, get by id, a full scan
  returning the rows in a store-defined order, and delete by id. The table is a list of
  rows in scan order.
\<close>

type_synonym db = "stored_row list"

text \<open>Modelled from the spec: \<^verbatim>\<open>astradb.selectAllFromTable(table="assistants")\<close>, the full scan.\<close>

definition astradb_selectAllFromTable :: "db \<Rightarrow> stored_row list" where
  "astradb_selectAllFromTable astradb = astradb"

text \<open>
  Modelled from the spec: \<^verbatim>\<open>astradb.get_assistant(id=...)\<close>, get by id. An absent row is
  \<^verbatim>\<open>None\<close>; a row is converted to the public shape, each stored tool entry being decoded.
\<close>

definition astradb_get_assistant :: "db \<Rightarrow> string \<Rightarrow> error + assistant_object option" where
  "astradb_get_assistant astradb i =
     (case find (\<lambda>r. row_id r = i) astradb of
        None \<Rightarrow> Inr None
      | Some r \<Rightarrow> (case to_assistant_object r of
                    Inl e \<Rightarrow> Inl e
                  | Inr a \<Rightarrow> Inr (Some a)))"

text \<open>Upsert by id: the row of that id is replaced where it stands, a new id is appended.\<close>

fun upsert_row :: "stored_row \<Rightarrow> db \<Rightarrow> db" where
  "upsert_row r [] = [r]"
| "upsert_row r (x # xs) = (if row_id x = row_id r then r # xs else x # upsert_row r xs)"

text \<open>
  Modelled from the spec: \<^verbatim>\<open>astradb.upsert_assistant(id=..., created_at=..., ...)\<close>. The
  fields are written as they are given, each tool serialised on its own; the integer given
  for \<^verbatim>\<open>created_at\<close> is taken as the value of the timestamp column.
\<close>

definition astradb_upsert_assistant ::
  "db \<Rightarrow> string \<Rightarrow> int \<Rightarrow> string option \<Rightarrow> string \<Rightarrow> string option \<Rightarrow> string option \<Rightarrow>
   tool list \<Rightarrow> string list \<Rightarrow> (string \<rightharpoonup> string) \<Rightarrow> string \<Rightarrow> db" where
  "astradb_upsert_assistant astradb i created_at name description model instructions
       tools file_ids metadata object =
     upsert_row \<lparr> row_id = i,
                  row_object = Some object,
                  row_created_at = created_at,
                  row_name = name,
                  row_description = Some description,
                  row_model = model,
                  row_instructions = instructions,
                  row_tools = Some (map Json tools),
                  row_file_ids = Some file_ids,
                  row_metadata = Some metadata \<rparr> astradb"

text \<open>Modelled from the spec: \<^verbatim>\<open>astradb.delete_assistant(id=...)\<close>, delete by id.\<close>

definition astradb_delete_assistant :: "db \<Rightarrow> string \<Rightarrow> db" where
  "astradb_delete_assistant astradb i = filter (\<lambda>r. row_id r \<noteq> i) astradb"

section \<open>The routes\<close>

subsection \<open>\<^verbatim>\<open>list_assistants\<close>\<close>

text \<open>The outer loop of \<^verbatim>\<open>list_assistants\<close>, appending to \<^verbatim>\<open>assistants\<close>.\<close>

fun list_loop :: "stored_row list \<Rightarrow> assistant_object list \<Rightarrow> error + assistant_object list" where
  "list_loop [] assistants = Inr assistants"
| "list_loop (assistant # rest) assistants =
     (case to_assistant_object assistant of
        Inl e \<Rightarrow> Inl e
      | Inr a \<Rightarrow> list_loop rest (assistants @ [a]))"

definition list_assistants ::
  "int \<Rightarrow> string \<Rightarrow> string option \<Rightarrow> string option \<Rightarrow> db \<Rightarrow> error + list_assistants_response" where
  "list_assistants limit order after before astradb =
     (let raw_assistants = astradb_selectAllFromTable astradb;
          assistants = []
      in if length raw_assistants = 0 then
           Inr \<lparr> lar_data = assistants,
                 lar_object = ''assistant'',
                 lar_first_id = ''none'',
                 lar_last_id = ''none'',
                 lar_has_more = False \<rparr>
         else
           (case list_loop raw_assistants assistants of
              Inl e \<Rightarrow> Inl e
            | Inr assistants' \<Rightarrow>
                (let first_id = row_id (raw_assistants ! 0);
                     last_id = row_id (raw_assistants ! (length raw_assistants - 1))
                 in Inr \<lparr> lar_data = assistants',
                          lar_object = ''assistants'',
                          lar_first_id = first_id,
                          lar_last_id = last_id,
                          lar_has_more = False \<rparr>)))"

subsection \<open>\<^verbatim>\<open>create_assistant\<close>\<close>

definition retrieval_tool :: tool where
  "retrieval_tool = \<lparr> tool_type = ''retrieval'', tool_function = None \<rparr>"

text \<open>
  The fresh id (\<^verbatim>\<open>str(uuid1())\<close>) and the clock's reading in seconds
  (\<^verbatim>\<open>int(time.mktime(datetime.now().timetuple()))\<close>) are arguments of the model. The test
  \<^verbatim>\<open>file_ids is not None\<close> of line 136 follows the defaulting of \<^verbatim>\<open>file_ids\<close> and always
  holds.
\<close>

definition create_assistant ::
  "string \<Rightarrow> int \<Rightarrow> db \<Rightarrow> create_assistant_request \<Rightarrow> (error + assistant_object) \<times> db" where
  "create_assistant uuid now astradb create_assistant_request =
     (let assistant_id = uuid;
          metadata = (case car_metadata create_assistant_request of
                        None \<Rightarrow> Map.empty | Some m \<Rightarrow> m);
          file_ids = (case car_file_ids create_assistant_request of
                        None \<Rightarrow> [] | Some f \<Rightarrow> f);
          tools = (case car_tools create_assistant_request of
                     None \<Rightarrow> [] | Some t \<Rightarrow> t)
      in if retrieval_tool \<notin> set tools \<and> file_ids \<noteq> [] then
           (Inl (HTTPException 400 ''Retrieval tool is required when file_ids is not [].''),
            astradb)
         else
           (let description = (case car_description create_assistant_request of
                                 None \<Rightarrow> '''' | Some d \<Rightarrow> d);
                created_at = now;
                astradb' = astradb_upsert_assistant astradb assistant_id created_at
                             (car_name create_assistant_request) description
                             (car_model create_assistant_request)
                             (car_instructions create_assistant_request)
                             tools file_ids metadata ''assistant'';
                name = (case car_name create_assistant_request of
                          None \<Rightarrow> '''' | Some n \<Rightarrow> n)
            in (Inr \<lparr> ao_id = assistant_id,
                      ao_object = ''assistant'',
                      ao_created_at = created_at,
                      ao_name = Some name,
                      ao_description = Some description,
                      ao_model = car_model create_assistant_request,
                      ao_instructions = car_instructions create_assistant_request,
                      ao_tools = tools,
                      ao_file_ids = file_ids,
                      ao_metadata = metadata \<rparr>,
                astradb')))"

subsection \<open>\<^verbatim>\<open>modify_assistant\<close>\<close>

text \<open>
  What the route hands back. On a row that is there it is the value read back after the
  write (line 225). On an absent row it is the value of the expression
  \<^verbatim>\<open>modify_assistant(assistant_id, modify_assistant_request, openai_token, astradb)\<close> of
  line 207: the route is \<^verbatim>\<open>async def\<close>, so this call only creates a coroutine, nothing
  awaits it and its body is not run. The \<^verbatim>\<open>asyncio.sleep(1)\<close> of line 206 is not awaited
  either: it waits for nothing and changes no state.
\<close>

datatype modify_result =
    Assistant "assistant_object option"
  | Coroutine string modify_assistant_request

definition modify_assistant ::
  "int \<Rightarrow> db \<Rightarrow> string \<Rightarrow> modify_assistant_request \<Rightarrow> (error + modify_result) \<times> db" where
  "modify_assistant now astradb assistant_id modify_assistant_request =
     (let metadata = (case mar_metadata modify_assistant_request of
                        None \<Rightarrow> Map.empty | Some m \<Rightarrow> m);
          file_ids = (case mar_file_ids modify_assistant_request of
                        None \<Rightarrow> [] | Some f \<Rightarrow> f);
          tools = (case mar_tools modify_assistant_request of
                     None \<Rightarrow> [] | Some t \<Rightarrow> t);
          description = (case mar_description modify_assistant_request of
                           None \<Rightarrow> '''' | Some d \<Rightarrow> d)
      in case astradb_get_assistant astradb assistant_id of
           Inl e \<Rightarrow> (Inl e, astradb)
         | Inr None \<Rightarrow> (Inr (Coroutine assistant_id modify_assistant_request), astradb)
         | Inr (Some assistant) \<Rightarrow>
             (let astradb' = astradb_upsert_assistant astradb assistant_id now
                               (mar_name modify_assistant_request) description
                               (mar_model modify_assistant_request)
                               (mar_instructions modify_assistant_request)
                               tools file_ids metadata ''assistant''
              in (case astradb_get_assistant astradb' assistant_id of
                    Inl e \<Rightarrow> Inl e
                  | Inr assistant' \<Rightarrow> Inr (Assistant assistant'),
                  astradb')))"

subsection \<open>\<^verbatim>\<open>delete_assistant\<close>\<close>

definition delete_assistant :: "db \<Rightarrow> string \<Rightarrow> delete_assistant_response \<times> db" where
  "delete_assistant astradb assistant_id =
     (let astradb' = astradb_delete_assistant astradb assistant_id
      in (\<lparr> dar_id = assistant_id, dar_deleted = True, dar_object = ''assistant'' \<rparr>,
          astradb'))"

subsection \<open>\<^verbatim>\<open>get_assistant\<close>\<close>

definition get_assistant :: "db \<Rightarrow> string \<Rightarrow> error + assistant_object" where
  "get_assistant astradb assistant_id =
     (case astradb_get_assistant astradb assistant_id of
        Inl e \<Rightarrow> Inl e
      | Inr None \<Rightarrow> Inl (HTTPException 404 ''Assistant not found.'')
      | Inr (Some assistant) \<Rightarrow> Inr assistant)"

section \<open>Example data\<close>

text \<open>Concrete rows, objects and requests at which the theorems below are instantiated.\<close>

definition example_row :: stored_row where
  "example_row =
     \<lparr> row_id = ''asst_1'', row_object = Some ''assistant'', row_created_at = 1700000000,
       row_name = Some ''helper'', row_description = Some ''first'', row_model = Some ''gpt-4'',
       row_instructions = None, row_tools = Some [Json retrieval_tool],
       row_file_ids = Some [''f1''], row_metadata = Some [''k'' \<mapsto> ''v''] \<rparr>"

definition example_object :: assistant_object where
  "example_object =
     \<lparr> ao_id = ''asst_1'', ao_object = ''assistant'', ao_created_at = 1700000000,
       ao_name = Some ''helper'', ao_description = Some ''first'', ao_model = Some ''gpt-4'',
       ao_instructions = None, ao_tools = [retrieval_tool],
       ao_file_ids = [''f1''], ao_metadata = [''k'' \<mapsto> ''v''] \<rparr>"

definition second_row :: stored_row where
  "second_row =
     \<lparr> row_id = ''asst_0'', row_object = Some ''assistant'', row_created_at = 1600000000,
       row_name = None, row_description = None, row_model = None,
       row_instructions = None, row_tools = None,
       row_file_ids = None, row_metadata = None \<rparr>"

definition second_object :: assistant_object where
  "second_object =
     \<lparr> ao_id = ''asst_0'', ao_object = ''assistant'', ao_created_at = 1600000000,
       ao_name = None, ao_description = None, ao_model = None,
       ao_instructions = None, ao_tools = [],
       ao_file_ids = [], ao_metadata = Map.empty \<rparr>"

definition bare_modify_request :: modify_assistant_request where
  "bare_modify_request =
     \<lparr> mar_name = None, mar_description = None, mar_model = Some ''gpt-4'',
       mar_instructions = None, mar_tools = None, mar_file_ids = None,
       mar_metadata = None \<rparr>"

definition uncoupled_modify_request :: modify_assistant_request where
  "uncoupled_modify_request =
     \<lparr> mar_name = Some ''helper'', mar_description = None, mar_model = Some ''gpt-4'',
       mar_instructions = None,
       mar_tools = Some [\<lparr> tool_type = ''code_interpreter'', tool_function = None \<rparr>],
       mar_file_ids = Some [''f9''], mar_metadata = None \<rparr>"

definition toolless_modify_request :: modify_assistant_request where
  "toolless_modify_request =
     \<lparr> mar_name = Some ''helper'', mar_description = None, mar_model = Some ''gpt-4'',
       mar_instructions = None, mar_tools = None,
       mar_file_ids = Some [''f9''], mar_metadata = None \<rparr>"

section \<open>Facts about the store\<close>

lemma find_delete: "find (\<lambda>r. row_id r = i) (astradb_delete_assistant db i) = None"
  by (simp add: astradb_delete_assistant_def find_None_iff)

lemma find_upsert_row: "find (\<lambda>x. row_id x = row_id r) (upsert_row r db) = Some r"
  by (induction db) simp_all

lemma parse_tools_Json: "parse_tools (map Json ts) acc = Inr (acc @ ts)"
  by (induction ts arbitrary: acc) simp_all

lemma parse_raw_error: "parse_raw j = Inl e \<Longrightarrow> e = ValidationError"
  by (cases j) auto

lemma parse_tools_error: "parse_tools js acc = Inl e \<Longrightarrow> e = ValidationError"
  by (induction js arbitrary: acc) (auto split: sum.splits dest: parse_raw_error)

lemma to_assistant_object_error: "to_assistant_object r = Inl e \<Longrightarrow> e = ValidationError"
  by (auto simp: to_assistant_object_def Let_def split: sum.splits option.splits
           dest: parse_tools_error)

lemma astradb_get_assistant_error:
  "astradb_get_assistant db i = Inl e \<Longrightarrow> e = ValidationError"
  by (auto simp: astradb_get_assistant_def split: sum.splits option.splits
           dest: to_assistant_object_error)

text \<open>What was upserted under an id is the row found under that id.\<close>

lemma find_after_upsert:
  "find (\<lambda>x. row_id x = i)
     (astradb_upsert_assistant db i created_at name description model instructions
        tools file_ids metadata object) =
   Some \<lparr> row_id = i, row_object = Some object, row_created_at = created_at,
          row_name = name, row_description = Some description, row_model = model,
          row_instructions = instructions, row_tools = Some (map Json tools),
          row_file_ids = Some file_ids, row_metadata = Some metadata \<rparr>"
  unfolding astradb_upsert_assistant_def
  using find_upsert_row
    [of "\<lparr> row_id = i, row_object = Some object, row_created_at = created_at,
          row_name = name, row_description = Some description, row_model = model,
          row_instructions = instructions, row_tools = Some (map Json tools),
          row_file_ids = Some file_ids, row_metadata = Some metadata \<rparr>" db]
  by simp

text \<open>Reading an id back after an upsert gives the fields that were written.\<close>

lemma get_after_upsert:
  "astradb_get_assistant
     (astradb_upsert_assistant db i created_at name description model instructions
        tools file_ids metadata object) i =
   Inr (Some \<lparr> ao_id = i, ao_object = ''assistant'', ao_created_at = created_at,
               ao_name = name, ao_description = Some description, ao_model = model,
               ao_instructions = instructions, ao_tools = tools, ao_file_ids = file_ids,
               ao_metadata = metadata \<rparr>)"
  by (simp add: astradb_get_assistant_def find_after_upsert to_assistant_object_def
      parse_tools_Json)

lemma example_row_public: "to_assistant_object example_row = Inr example_object"
  by (simp add: to_assistant_object_def example_row_def example_object_def)

lemma second_row_public: "to_assistant_object second_row = Inr second_object"
  by (simp add: to_assistant_object_def second_row_def second_object_def)

lemma example_get: "astradb_get_assistant [example_row] ''asst_1'' = Inr (Some example_object)"
  by (simp add: astradb_get_assistant_def example_row_public) (simp add: example_row_def)

section \<open>Modifying an assistant\<close>

text \<open>
  On a row that is there, the route writes the request's fields with the defaults applied
  and hands back what it reads under the id afterwards.
\<close>

lemma modify_assistant_present:
  assumes "astradb_get_assistant db i = Inr (Some a)"
  shows "modify_assistant now db i req =
           (Inr (Assistant (Some
              \<lparr> ao_id = i, ao_object = ''assistant'', ao_created_at = now,
                ao_name = mar_name req,
                ao_description =
                  Some (case mar_description req of None \<Rightarrow> '''' | Some d \<Rightarrow> d),
                ao_model = mar_model req,
                ao_instructions = mar_instructions req,
                ao_tools = (case mar_tools req of None \<Rightarrow> [] | Some t \<Rightarrow> t),
                ao_file_ids = (case mar_file_ids req of None \<Rightarrow> [] | Some f \<Rightarrow> f),
                ao_metadata =
                  (case mar_metadata req of None \<Rightarrow> Map.empty | Some m \<Rightarrow> m) \<rparr>)),
            astradb_upsert_assistant db i now (mar_name req)
              (case mar_description req of None \<Rightarrow> '''' | Some d \<Rightarrow> d)
              (mar_model req) (mar_instructions req)
              (case mar_tools req of None \<Rightarrow> [] | Some t \<Rightarrow> t)
              (case mar_file_ids req of None \<Rightarrow> [] | Some f \<Rightarrow> f)
              (case mar_metadata req of None \<Rightarrow> Map.empty | Some m \<Rightarrow> m)
              ''assistant'')"
  by (simp add: modify_assistant_def assms Let_def get_after_upsert)

text \<open>
  No outcome of \<^verbatim>\<open>modify_assistant\<close> is an HTTP error, whatever the store and the
  request: the route raises none itself, and what the store read raises is a decoding error.
\<close>

lemma modify_assistant_errors:
  assumes "modify_assistant now db i req = (Inl e, db')"
  shows "e = ValidationError"
  using assms
  by (auto simp: modify_assistant_def Let_def get_after_upsert
           split: sum.splits option.splits dest: astradb_get_assistant_error)




text \<open>
  C4. For every call of \<^verbatim>\<open>modify_assistant\<close> on an id whose row the store returns, the
  row stored under the id afterwards holds exactly the fields of the request with the
  defaults applied and the fresh timestamp. Metadata, file ids and tools that the request
  leaves out are stored empty, whatever the row held before.
\<close>

theorem modify_assistant_replaces_record:
  assumes "astradb_get_assistant db i = Inr (Some a)"
  shows "\<exists>out db' r. modify_assistant now db i req = (out, db') \<and>
           find (\<lambda>x. row_id x = i) db' = Some r \<and>
           r = \<lparr> row_id = i, row_object = Some ''assistant'', row_created_at = now,
                 row_name = mar_name req,
                 row_description =
                   Some (case mar_description req of None \<Rightarrow> '''' | Some d \<Rightarrow> d),
                 row_model = mar_model req,
                 row_instructions = mar_instructions req,
                 row_tools =
                   Some (map Json (case mar_tools req of None \<Rightarrow> [] | Some t \<Rightarrow> t)),
                 row_file_ids =
                   Some (case mar_file_ids req of None \<Rightarrow> [] | Some f \<Rightarrow> f),
                 row_metadata =
                   Some (case mar_metadata req of None \<Rightarrow> Map.empty | Some m \<Rightarrow> m) \<rparr> \<and>
           (mar_metadata req = None \<longrightarrow> row_metadata r = Some Map.empty) \<and>
           (mar_file_ids req = None \<longrightarrow> row_file_ids r = Some []) \<and>
           (mar_tools req = None \<longrightarrow> row_tools r = Some [])"
  by (simp add: modify_assistant_present [OF assms] find_after_upsert)

theorem modify_assistant_replaces_record_witness:
  "astradb_get_assistant [example_row] ''asst_1'' = Inr (Some example_object) \<and>
   (\<exists>out db' r. modify_assistant 1700000500 [example_row] ''asst_1'' bare_modify_request
                   = (out, db') \<and>
      find (\<lambda>x. row_id x = ''asst_1'') db' = Some r \<and>
      row_name r = None \<and> row_description r = Some '''' \<and> row_model r = Some ''gpt-4'' \<and>
      row_metadata r = Some Map.empty \<and> row_file_ids r = Some [] \<and> row_tools r = Some [] \<and>
      row_metadata example_row = Some [''k'' \<mapsto> ''v''] \<and>
      row_file_ids example_row = Some [''f1''] \<and>
      row_tools example_row = Some [Json retrieval_tool])"
proof -
  from modify_assistant_replaces_record [OF example_get, of 1700000500 bare_modify_request]
  obtain out db' r where
    "modify_assistant 1700000500 [example_row] ''asst_1'' bare_modify_request = (out, db')"
    "find (\<lambda>x. row_id x = ''asst_1'') db' = Some r"
    "r = \<lparr> row_id = ''asst_1'', row_object = Some ''assistant'', row_created_at = 1700000500,
           row_name = mar_name bare_modify_request,
           row_description =
             Some (case mar_description bare_modify_request of None \<Rightarrow> '''' | Some d \<Rightarrow> d),
           row_model = mar_model bare_modify_request,
           row_instructions = mar_instructions bare_modify_request,
           row_tools =
             Some (map Json (case mar_tools bare_modify_request of None \<Rightarrow> [] | Some t \<Rightarrow> t)),
           row_file_ids =
             Some (case mar_file_ids bare_modify_request of None \<Rightarrow> [] | Some f \<Rightarrow> f),
           row_metadata =
             Some (case mar_metadata bare_modify_request of
                     None \<Rightarrow> Map.empty | Some m \<Rightarrow> m) \<rparr>"
    by blast
  then show ?thesis
    using example_get by (simp add: bare_modify_request_def example_row_def)
qed

text \<open>
  C6. \<^verbatim>\<open>modify_assistant\<close> does not check the coupling of tools and file ids: on an id
  whose row the store returns, a request with file ids and no retrieval tool (an absent
  tool list counts as empty) succeeds, and its file ids and tools are what the store then
  holds and returns.
\<close>

theorem modify_assistant_skips_tool_file_check:
  assumes "astradb_get_assistant db i = Inr (Some a)"
    and "mar_file_ids req = Some file_ids" and "file_ids \<noteq> []"
    and "\<forall>t \<in> set (case mar_tools req of None \<Rightarrow> [] | Some ts \<Rightarrow> ts).
           tool_type t \<noteq> ''retrieval''"
  shows "\<exists>a' db' r. modify_assistant now db i req = (Inr (Assistant (Some a')), db') \<and>
           ao_file_ids a' = file_ids \<and>
           ao_tools a' = (case mar_tools req of None \<Rightarrow> [] | Some ts \<Rightarrow> ts) \<and>
           find (\<lambda>x. row_id x = i) db' = Some r \<and>
           row_file_ids r = Some file_ids \<and>
           row_tools r = Some (map Json (case mar_tools req of None \<Rightarrow> [] | Some ts \<Rightarrow> ts))"
  by (simp add: modify_assistant_present [OF assms(1)] find_after_upsert assms(2))

theorem modify_assistant_skips_tool_file_check_witness:
  "astradb_get_assistant [example_row] ''asst_1'' = Inr (Some example_object) \<and>
   mar_file_ids uncoupled_modify_request = Some [''f9''] \<and> [''f9''] \<noteq> [] \<and>
   mar_tools uncoupled_modify_request =
     Some [\<lparr> tool_type = ''code_interpreter'', tool_function = None \<rparr>] \<and>
   tool_type \<lparr> tool_type = ''code_interpreter'', tool_function = None \<rparr> \<noteq> ''retrieval'' \<and>
   (\<exists>a' db' r. modify_assistant 1700000500 [example_row] ''asst_1'' uncoupled_modify_request =
                  (Inr (Assistant (Some a')), db') \<and>
       ao_file_ids a' = [''f9''] \<and>
       ao_tools a' = [\<lparr> tool_type = ''code_interpreter'', tool_function = None \<rparr>] \<and>
       find (\<lambda>x. row_id x = ''asst_1'') db' = Some r \<and>
       row_file_ids r = Some [''f9''] \<and>
       row_tools r =
         Some (map Json [\<lparr> tool_type = ''code_interpreter'', tool_function = None \<rparr>])) \<and>
   mar_file_ids toolless_modify_request = Some [''f9''] \<and>
   mar_tools toolless_modify_request = None \<and>
   (\<exists>a' db' r. modify_assistant 1700000500 [example_row] ''asst_1'' toolless_modify_request =
                  (Inr (Assistant (Some a')), db') \<and>
       ao_file_ids a' = [''f9''] \<and> ao_tools a' = [] \<and>
       find (\<lambda>x. row_id x = ''asst_1'') db' = Some r \<and>
       row_file_ids r = Some [''f9''] \<and> row_tools r = Some (map Json []))"
proof -
  have f: "mar_file_ids uncoupled_modify_request = Some [''f9'']"
    by (simp add: uncoupled_modify_request_def)
  have n: "[''f9''] \<noteq> ([] :: string list)" by simp
  have t: "mar_tools uncoupled_modify_request =
     Some [\<lparr> tool_type = ''code_interpreter'', tool_function = None \<rparr>]"
    by (simp add: uncoupled_modify_request_def)
  have c: "tool_type \<lparr> tool_type = ''code_interpreter'', tool_function = None \<rparr> \<noteq> ''retrieval''"
    by simp
  have q: "\<forall>t \<in> set (case mar_tools uncoupled_modify_request of None \<Rightarrow> [] | Some ts \<Rightarrow> ts).
             tool_type t \<noteq> ''retrieval''"
    by (simp add: t)
  have f': "mar_file_ids toolless_modify_request = Some [''f9'']"
    by (simp add: toolless_modify_request_def)
  have t': "mar_tools toolless_modify_request = None"
    by (simp add: toolless_modify_request_def)
  have q': "\<forall>t \<in> set (case mar_tools toolless_modify_request of None \<Rightarrow> [] | Some ts \<Rightarrow> ts).
              tool_type t \<noteq> ''retrieval''"
    by (simp add: t')
  have u: "\<exists>a' db' r. modify_assistant 1700000500 [example_row] ''asst_1''
                        uncoupled_modify_request = (Inr (Assistant (Some a')), db') \<and>
       ao_file_ids a' = [''f9''] \<and>
       ao_tools a' = [\<lparr> tool_type = ''code_interpreter'', tool_function = None \<rparr>] \<and>
       find (\<lambda>x. row_id x = ''asst_1'') db' = Some r \<and>
       row_file_ids r = Some [''f9''] \<and>
       row_tools r =
         Some (map Json [\<lparr> tool_type = ''code_interpreter'', tool_function = None \<rparr>])"
    using modify_assistant_skips_tool_file_check [OF example_get f n q, of 1700000500]
    by (simp only: t option.case)
  have v: "\<exists>a' db' r. modify_assistant 1700000500 [example_row] ''asst_1''
                        toolless_modify_request = (Inr (Assistant (Some a')), db') \<and>
       ao_file_ids a' = [''f9''] \<and> ao_tools a' = [] \<and>
       find (\<lambda>x. row_id x = ''asst_1'') db' = Some r \<and>
       row_file_ids r = Some [''f9''] \<and> row_tools r = Some (map Json [])"
    using modify_assistant_skips_tool_file_check [OF example_get f' n q', of 1700000500]
    by (simp only: t' option.case)
  show ?thesis
    using example_get f n t c u f' t' v by blast
qed

section \<open>Creating an assistant\<close>

text \<open>
  C2. A create request with file ids and no tool of the retrieval variant (an absent tool
  list counts as empty) is refused with the client error of status 400, and the store is
  left as it was: nothing is written.
\<close>

theorem create_assistant_requires_retrieval:
  assumes "car_file_ids req = Some file_ids" and "file_ids \<noteq> []"
    and "\<forall>t \<in> set (case car_tools req of None \<Rightarrow> [] | Some ts \<Rightarrow> ts).
           tool_type t \<noteq> ''retrieval''"
  shows "create_assistant uuid now db req =
           (Inl (HTTPException 400 ''Retrieval tool is required when file_ids is not [].''), db)"
proof -
  have "retrieval_tool \<notin> set (case car_tools req of None \<Rightarrow> [] | Some ts \<Rightarrow> ts)"
    using assms(3) by (auto simp: retrieval_tool_def)
  then show ?thesis
    using assms(1,2) by (simp add: create_assistant_def)
qed

theorem create_assistant_requires_retrieval_witness:
  "create_assistant ''asst_2'' 1700000000 [example_row]
     \<lparr> car_name = None, car_description = None, car_model = Some ''gpt-4'',
       car_instructions = None, car_tools = Some [], car_file_ids = Some [''f1''],
       car_metadata = None \<rparr> =
   (Inl (HTTPException 400 ''Retrieval tool is required when file_ids is not [].''),
    [example_row])"
  using create_assistant_requires_retrieval
    [of "\<lparr> car_name = None, car_description = None, car_model = Some ''gpt-4'',
          car_instructions = None, car_tools = Some [], car_file_ids = Some [''f1''],
          car_metadata = None \<rparr>" "[''f1'']" "''asst_2''" 1700000000 "[example_row]"]
  by simp

text \<open>
  After a successful create, reading the new id gives the response's description, model,
  instructions, tools, file ids and metadata. The name read back is the name of the
  request, while the response carries the empty string for an absent name: line 149 writes
  the name as given, lines 160 to 162 default it afterwards.
\<close>

lemma create_assistant_then_get:
  assumes "create_assistant uuid now db req = (Inr a, db')"
  shows "\<exists>a'. get_assistant db' (ao_id a) = Inr a' \<and>
           ao_name a = Some (case car_name req of None \<Rightarrow> '''' | Some n \<Rightarrow> n) \<and>
           ao_name a' = car_name req \<and>
           ao_description a' = ao_description a \<and> ao_model a' = ao_model a \<and>
           ao_instructions a' = ao_instructions a \<and> ao_tools a' = ao_tools a \<and>
           ao_file_ids a' = ao_file_ids a \<and> ao_metadata a' = ao_metadata a"
  using assms
  by (auto simp: create_assistant_def Let_def get_assistant_def get_after_upsert
           split: if_splits)

text \<open>
  C3. The claim: after every successful create, the response and the record read back
  under its id agree on name, description, model, instructions, tools, file ids and
  metadata, also when the request has no name. For a request without a name the response
  has the name \<open>''''\<close> and the record read back has none.
\<close>

theorem create_assistant_unnamed_round_trip_differs:
  "case create_assistant ''asst_2'' 1700000000 []
          \<lparr> car_name = None, car_description = None, car_model = Some ''gpt-4'',
            car_instructions = None, car_tools = Some [retrieval_tool],
            car_file_ids = Some [''f1''], car_metadata = None \<rparr> of
     (Inl e, db') \<Rightarrow> False
   | (Inr a, db') \<Rightarrow>
       (case get_assistant db' (ao_id a) of
          Inl e \<Rightarrow> False
        | Inr a' \<Rightarrow> ao_name a = Some '''' \<and> ao_name a' = None \<and> ao_name a' \<noteq> ao_name a)"
  by (simp add: create_assistant_def Let_def get_assistant_def get_after_upsert)

section \<open>Deleting and getting an assistant\<close>

text \<open>
  C7. For every id and every store, \<^verbatim>\<open>delete_assistant\<close> answers with the id and
  \<^verbatim>\<open>deleted=True\<close> and raises nothing, whether or not a row of that id exists; a second
  delete of the same id gives the same answer.
\<close>

theorem delete_assistant_always_succeeds:
  "fst (delete_assistant db i) =
     \<lparr> dar_id = i, dar_deleted = True, dar_object = ''assistant'' \<rparr> \<and>
   fst (delete_assistant (snd (delete_assistant db i)) i) =
     \<lparr> dar_id = i, dar_deleted = True, dar_object = ''assistant'' \<rparr>"
  by (simp add: delete_assistant_def)

text \<open>
  C9. For every id with no row in the store, \<^verbatim>\<open>get_assistant\<close> raises the not-found
  error of status 404; so it does for any id after \<^verbatim>\<open>delete_assistant\<close> of that id.
\<close>

theorem get_assistant_absent_not_found:
  "(i \<notin> row_id ` set db \<longrightarrow>
      get_assistant db i = Inl (HTTPException 404 ''Assistant not found.'')) \<and>
   get_assistant (snd (delete_assistant db i)) i =
      Inl (HTTPException 404 ''Assistant not found.'')"
proof -
  have "find (\<lambda>r. row_id r = i) db = None" if "i \<notin> row_id ` set db"
    using that by (auto simp: find_None_iff)
  then show ?thesis
    by (auto simp: get_assistant_def astradb_get_assistant_def delete_assistant_def find_delete)
qed

theorem get_assistant_absent_not_found_witness:
  "''asst_9'' \<notin> row_id ` set [example_row] \<and>
   get_assistant [example_row] ''asst_9'' = Inl (HTTPException 404 ''Assistant not found.'') \<and>
   get_assistant [example_row] ''asst_1'' = Inr example_object \<and>
   get_assistant (snd (delete_assistant [example_row] ''asst_1'')) ''asst_1'' =
      Inl (HTTPException 404 ''Assistant not found.'')"
proof -
  have h: "''asst_9'' \<notin> row_id ` set [example_row]" by (simp add: example_row_def)
  have g: "get_assistant [example_row] ''asst_1'' = Inr example_object"
    by (simp add: get_assistant_def example_get)
  have a: "get_assistant [example_row] ''asst_9'' =
      Inl (HTTPException 404 ''Assistant not found.'')"
    using h get_assistant_absent_not_found [of "''asst_9''" "[example_row]"] by blast
  have b: "get_assistant (snd (delete_assistant [example_row] ''asst_1'')) ''asst_1'' =
      Inl (HTTPException 404 ''Assistant not found.'')"
    using get_assistant_absent_not_found [of "''asst_1''" "[example_row]"] by blast
  show ?thesis
    using h g a b by blast
qed

section \<open>Listing assistants\<close>

text \<open>The loop returns a list exactly when every row converts, and then appends in order.\<close>

lemma list_loop_Inr:
  "list_loop rows acc = Inr xs \<longleftrightarrow>
     (\<exists>ys. map to_assistant_object rows = map Inr ys \<and> xs = acc @ ys)"
proof (induction rows arbitrary: acc)
  case Nil
  then show ?case by auto
next
  case (Cons r rows)
  show ?case
  proof (cases "to_assistant_object r")
    case (Inl e)
    then show ?thesis by (auto simp: map_eq_Cons_conv)
  next
    case (Inr a)
    then show ?thesis by (auto simp: Cons.IH map_eq_Cons_conv)
  qed
qed

lemma map_all_Inr:
  "(\<forall>x \<in> set xs. \<exists>a. f x = Inr a) \<Longrightarrow> \<exists>ys. map f xs = map Inr ys"
proof (induction xs)
  case Nil
  then show ?case by simp
next
  case (Cons x xs)
  then obtain a ys where "f x = Inr a" "map f xs = map Inr ys" by auto
  then have "map f (x # xs) = map Inr (a # ys)" by simp
  then show ?case by blast
qed

text \<open>
  C8. On an empty store \<^verbatim>\<open>list_assistants\<close> returns no data, \<^verbatim>\<open>has_more=False\<close> and the
  marker \<^verbatim>\<open>none\<close> for the first and the last id, for every limit, order, after and before.
\<close>

theorem list_assistants_empty_store:
  assumes "astradb_selectAllFromTable db = []"
  shows "list_assistants limit order after before db =
           Inr \<lparr> lar_data = [], lar_object = ''assistant'', lar_first_id = ''none'',
                 lar_last_id = ''none'', lar_has_more = False \<rparr>"
  using assms by (simp add: list_assistants_def)

theorem list_assistants_empty_store_witness:
  "astradb_selectAllFromTable [] = [] \<and>
   list_assistants 1 ''asc'' (Some ''asst_1'') None [] =
     Inr \<lparr> lar_data = [], lar_object = ''assistant'', lar_first_id = ''none'',
           lar_last_id = ''none'', lar_has_more = False \<rparr>"
proof -
  have h: "astradb_selectAllFromTable [] = []"
    by (simp add: astradb_selectAllFromTable_def)
  show ?thesis
    using h list_assistants_empty_store [OF h, of 1 "''asc''" "Some ''asst_1''" None] by simp
qed

text \<open>
  C5. On a non-empty store the response of \<^verbatim>\<open>list_assistants\<close> is the same for every
  limit, order, after and before, and a response \<open>r\<close> is returned exactly when its data
  is the whole scan, converted row by row in scan order, its first and last id are the ids
  of the first and the last row of the scan, and \<^verbatim>\<open>has_more\<close> is false. (A row with a
  tool entry that does not decode has no conversion; the call then raises.)
\<close>

theorem list_assistants_full_scan:
  assumes "astradb_selectAllFromTable db \<noteq> []"
  shows "(list_assistants limit order after before db = Inr r \<longleftrightarrow>
            map to_assistant_object (astradb_selectAllFromTable db) = map Inr (lar_data r) \<and>
            lar_object r = ''assistants'' \<and>
            lar_first_id r = row_id (hd (astradb_selectAllFromTable db)) \<and>
            lar_last_id r = row_id (last (astradb_selectAllFromTable db)) \<and>
            \<not> lar_has_more r) \<and>
         list_assistants limit order after before db =
           list_assistants limit' order' after' before' db"
proof
  let ?raw = "astradb_selectAllFromTable db"
  have i0: "?raw ! 0 = hd ?raw" using assms by (simp add: hd_conv_nth)
  have il: "?raw ! (length ?raw - 1) = last ?raw" using assms by (simp add: last_conv_nth)
  show "list_assistants limit order after before db = Inr r \<longleftrightarrow>
            map to_assistant_object ?raw = map Inr (lar_data r) \<and>
            lar_object r = ''assistants'' \<and>
            lar_first_id r = row_id (hd ?raw) \<and>
            lar_last_id r = row_id (last ?raw) \<and>
            \<not> lar_has_more r"
  proof (cases "list_loop ?raw []")
    case (Inl e)
    then have "\<not> (\<exists>ys. map to_assistant_object ?raw = map Inr ys)"
      using list_loop_Inr [of ?raw "[]"] by auto
    with Inl assms show ?thesis
      by (auto simp: list_assistants_def Let_def)
  next
    case (Inr as)
    then have m: "map to_assistant_object ?raw = map Inr as"
      using list_loop_Inr [of ?raw "[]" as] by auto
    show ?thesis
      using Inr assms i0 il
      by (cases r) (auto simp: list_assistants_def Let_def m inj_map_eq_map)
  qed
  show "list_assistants limit order after before db =
          list_assistants limit' order' after' before' db"
    by (simp add: list_assistants_def)
qed

theorem list_assistants_full_scan_witness:
  "astradb_selectAllFromTable [example_row, second_row] \<noteq> [] \<and>
   list_assistants 1 ''asc'' (Some ''asst_1'') (Some ''asst_0'') [example_row, second_row] =
     Inr \<lparr> lar_data = [example_object, second_object], lar_object = ''assistants'',
           lar_first_id = ''asst_1'', lar_last_id = ''asst_0'', lar_has_more = False \<rparr>"
proof -
  have s: "astradb_selectAllFromTable [example_row, second_row] = [example_row, second_row]"
    by (simp add: astradb_selectAllFromTable_def)
  have h: "astradb_selectAllFromTable [example_row, second_row] \<noteq> []"
    by (simp add: s)
  have ids: "row_id example_row = ''asst_1''" "row_id second_row = ''asst_0''"
    by (simp_all add: example_row_def second_row_def)
  show ?thesis
    using h list_assistants_full_scan
      [OF h, of 1 "''asc''" "Some ''asst_1''" "Some ''asst_0''"
        "\<lparr> lar_data = [example_object, second_object], lar_object = ''assistants'',
           lar_first_id = ''asst_1'', lar_last_id = ''asst_0'', lar_has_more = False \<rparr>"]
    by (simp add: s example_row_public second_row_public ids)
qed

text \<open>
  C10. The \<^verbatim>\<open>object\<close> field of the list response is not constant. On an empty store
  the call returns a response whose \<^verbatim>\<open>object\<close> is \<^verbatim>\<open>assistant\<close>; on a non-empty store
  every response it returns has the \<^verbatim>\<open>object\<close> \<^verbatim>\<open>assistants\<close>, and it returns one
  whenever every row converts.
\<close>

theorem list_assistants_object_varies:
  "(astradb_selectAllFromTable db = [] \<longrightarrow>
      (\<exists>r. list_assistants limit order after before db = Inr r \<and>
            lar_object r = ''assistant'')) \<and>
   (astradb_selectAllFromTable db \<noteq> [] \<longrightarrow>
      (\<forall>r. list_assistants limit order after before db = Inr r \<longrightarrow>
            lar_object r = ''assistants'') \<and>
      ((\<forall>row \<in> set (astradb_selectAllFromTable db). \<exists>a. to_assistant_object row = Inr a) \<longrightarrow>
         (\<exists>r. list_assistants limit order after before db = Inr r)))"
proof (intro conjI impI allI)
  assume "astradb_selectAllFromTable db = []"
  then show "\<exists>r. list_assistants limit order after before db = Inr r \<and>
                 lar_object r = ''assistant''"
    by (simp add: list_assistants_def)
next
  fix r
  assume "astradb_selectAllFromTable db \<noteq> []"
    and "list_assistants limit order after before db = Inr r"
  then show "lar_object r = ''assistants''"
    by (auto simp: list_assistants_def Let_def split: sum.splits)
next
  let ?raw = "astradb_selectAllFromTable db"
  assume ne: "?raw \<noteq> []"
    and dec: "\<forall>row \<in> set ?raw. \<exists>a. to_assistant_object row = Inr a"
  have "\<exists>ys. map to_assistant_object ?raw = map Inr ys"
    using dec by (rule map_all_Inr)
  then obtain ys where "list_loop ?raw [] = Inr ys"
    using list_loop_Inr [of ?raw "[]"] by auto
  then show "\<exists>r. list_assistants limit order after before db = Inr r"
    using ne by (simp add: list_assistants_def Let_def)
qed

theorem list_assistants_object_varies_witness:
  "astradb_selectAllFromTable [] = [] \<and>
   (\<exists>r. list_assistants 20 ''desc'' None None [] = Inr r \<and> lar_object r = ''assistant'') \<and>
   astradb_selectAllFromTable [second_row] \<noteq> [] \<and>
   to_assistant_object second_row = Inr second_object \<and>
   (\<exists>r. list_assistants 20 ''desc'' None None [second_row] = Inr r \<and>
        lar_object r = ''assistants'')"
proof -
  have e: "astradb_selectAllFromTable [] = []"
    by (simp add: astradb_selectAllFromTable_def)
  have n: "astradb_selectAllFromTable [second_row] \<noteq> []"
    by (simp add: astradb_selectAllFromTable_def)
  have d: "\<forall>row \<in> set (astradb_selectAllFromTable [second_row]).
             \<exists>a. to_assistant_object row = Inr a"
    by (simp add: astradb_selectAllFromTable_def second_row_public)
  have a: "\<exists>r. list_assistants 20 ''desc'' None None [] = Inr r \<and> lar_object r = ''assistant''"
    using e list_assistants_object_varies [of "[]" 20 "''desc''" None None] by blast
  have b: "\<exists>r. list_assistants 20 ''desc'' None None [second_row] = Inr r \<and>
               lar_object r = ''assistants''"
    using n d list_assistants_object_varies [of "[second_row]" 20 "''desc''" None None]
    by blast
  show ?thesis using e n second_row_public a b by blast
qed

end
